theory Spec2Isabelle
  imports Complex_Main "HOL-Library.Signed_Division" "HOL-Library.AList"
begin

section \<open>The snake game server (src/index.ts)\<close>

text \<open>
  A shallow embedding of the match engine of \<^verbatim>\<open>src/index.ts\<close>: the class
  \<^verbatim>\<open>GameRoom\<close> (lines 48-177), the room registry \<^verbatim>\<open>rooms\<close> (line 179) and the four
  socket handlers (lines 184-248).

  Conventions of the embedding.
  \<^item> JavaScript numbers that the program only ever uses at integer values (coordinates,
    scores, timestamps) are \<open>int\<close>. A draw of \<^verbatim>\<open>Math.random()\<close> is the real value of a
    double, and its product with the number of columns or rows is rounded to the nearest
    double, ties to even, as the multiplication of lines 87-88 does (\<open>toDouble\<close>). The
    quotients \<^verbatim>\<open>CANVAS_WIDTH / BLOCK_SIZE\<close> and \<^verbatim>\<open>CANVAS_HEIGHT / BLOCK_SIZE\<close> are the
    integers 40 and 30. The bound \<^verbatim>\<open>1000 / GAME_SPEED\<close> of line 100 is only compared with a
    difference of integer timestamps and is taken over \<open>real\<close>.
  \<^item> JavaScript's \<^verbatim>\<open>%\<close> truncates towards zero (the result has the sign of the
    dividend): it is \<open>smod\<close> of \<^theory_text>\<open>HOL-Library.Signed_Division\<close>, not \<open>mod\<close>.
  \<^item> \<^verbatim>\<open>Math.random()\<close> and \<^verbatim>\<open>Date.now()\<close> read an environment that is passed
    explicitly: the sequence of values each will return and how many were consumed.
  \<^item> Reading \<^verbatim>\<open>.x\<close> of \<^verbatim>\<open>undefined\<close> (the head of an empty \<^verbatim>\<open>positions\<close> array)
    throws; the model returns \<open>Inl TypeError\<close> there.
  \<^item> Objects are mutated in place in the source; the model returns the updated value.
    The registry is a JavaScript \<^verbatim>\<open>Map\<close>, iterated in insertion order: an association
    list with \<open>map_of\<close>, \<open>AList.update\<close> and \<open>AList.delete\<close>.
  \<^item> Calls into socket.io and the timer API are recorded as a list of effects.
\<close>

subsection \<open>Constants (lines 24-43)\<close>

definition CANVAS_WIDTH :: int where "CANVAS_WIDTH = 800"
definition CANVAS_HEIGHT :: int where "CANVAS_HEIGHT = 600"
definition BLOCK_SIZE :: int where "BLOCK_SIZE = 20"
definition GAME_SPEED :: int where "GAME_SPEED = 15"

definition GREEN :: string where "GREEN = ''#00FF00''"
definition BLUE :: string where "BLUE = ''#0000FF''"
definition RED :: string where "RED = ''#FF0000''"

text \<open>
  \<^verbatim>\<open>Position\<close> and \<^verbatim>\<open>Direction\<close> are both objects \<^verbatim>\<open>{x, y}\<close>; the fields are called
  \<open>px\<close> and \<open>py\<close> here so that \<open>x\<close> and \<open>y\<close> stay free for variables.
\<close>

record Position =
  px :: int
  py :: int

type_synonym Direction = Position

definition UP :: Direction where "UP = \<lparr>px = 0, py = -1\<rparr>"
definition DOWN :: Direction where "DOWN = \<lparr>px = 0, py = 1\<rparr>"
definition LEFT :: Direction where "LEFT = \<lparr>px = -1, py = 0\<rparr>"
definition RIGHT :: Direction where "RIGHT = \<lparr>px = 1, py = 0\<rparr>"

subsection \<open>The game state (lines 48-83)\<close>

record Snake =
  positions :: "Position list"
  direction :: Direction
  color :: string
  score :: int
  speed :: int

record Food =
  position :: Position
  fcolor :: string

record GameState =
  snake1 :: Snake
  snake2 :: Snake
  food :: Food
  lastUpdate :: int

datatype error = TypeError

text \<open>
  The environment: \<open>randoms e n\<close> is what the \<open>n\<close>-th call of \<^verbatim>\<open>Math.random()\<close>
  returns (the real value of a double in \<open>[0, 1)\<close>) and \<open>drawn e\<close> counts the calls made
  so far; \<open>clock\<close> and \<open>reads\<close> do the same for \<^verbatim>\<open>Date.now()\<close>.
\<close>

record env =
  randoms :: "nat \<Rightarrow> real"
  drawn :: nat
  clock :: "nat \<Rightarrow> int"
  reads :: nat

definition Math_random :: "env \<Rightarrow> real \<times> env" where
  "Math_random e = (randoms e (drawn e), e\<lparr>drawn := Suc (drawn e)\<rparr>)"

definition Date_now :: "env \<Rightarrow> int \<times> env" where
  "Date_now e = (clock e (reads e), e\<lparr>reads := Suc (reads e)\<rparr>)"

text \<open>
  Rounding a real \<open>0 \<le> x < 2 ^ 1024\<close> to the nearest double, ties to even. \<open>binade x\<close> is
  the power of two \<open>2 ^ e \<le> x < 2 ^ (e + 1)\<close> with \<open>- 1022 \<le> e \<le> 1023\<close>, found by doubling
  or halving from 1 (and \<open>2 ^ - 1022\<close> for the subnormal numbers below it). The doubles of
  that binade are the multiples of \<open>binade x / 2 ^ 52\<close>.
\<close>

fun binade_up :: "nat \<Rightarrow> real \<Rightarrow> real \<Rightarrow> real" where
  "binade_up fuel p x = (if fuel = 0 \<or> x < 2 * p then p else binade_up (fuel - 1) (2 * p) x)"

fun binade_down :: "nat \<Rightarrow> real \<Rightarrow> real \<Rightarrow> real" where
  "binade_down fuel p x = (if fuel = 0 \<or> p \<le> x then p else binade_down (fuel - 1) (p / 2) x)"

declare binade_up.simps [simp del] binade_down.simps [simp del]

definition binade :: "real \<Rightarrow> real" where
  "binade x = (if 1 \<le> x then binade_up 1023 1 x else binade_down 1022 1 x)"

definition toDouble :: "real \<Rightarrow> real" where
  "toDouble x =
     (let q = binade x / 2 ^ 52;
          n = \<lfloor>x / q\<rfloor>;
          f = x / q - of_int n
      in if f < 1 / 2 then of_int n * q
         else if 1 / 2 < f then of_int (n + 1) * q
         else if even n then of_int n * q else of_int (n + 1) * q)"

text \<open>
  \<^verbatim>\<open>generateFood\<close>, lines 85-94: two draws, \<open>x\<close> first. Each product is a double
  multiplication; \<^verbatim>\<open>Math.floor\<close> and the multiplication of an integer below 64 by the
  block size are exact.
\<close>

definition generateFood :: "env \<Rightarrow> Food \<times> env" where
  "generateFood e =
     (let (r1, e1) = Math_random e;
          (r2, e2) = Math_random e1;
          pos = \<lparr>px = \<lfloor>toDouble (r1 * (real_of_int CANVAS_WIDTH / real_of_int BLOCK_SIZE))\<rfloor>
                        * BLOCK_SIZE,
                 py = \<lfloor>toDouble (r2 * (real_of_int CANVAS_HEIGHT / real_of_int BLOCK_SIZE))\<rfloor>
                        * BLOCK_SIZE\<rparr>
      in (\<lparr>position = pos, fcolor = RED\<rparr>, e2))"

text \<open>
  \<^verbatim>\<open>initializeGameState\<close>, lines 64-83. \<^verbatim>\<open>CANVAS_WIDTH / 4\<close>, \<^verbatim>\<open>(CANVAS_WIDTH * 3) / 4\<close>
  and \<^verbatim>\<open>CANVAS_HEIGHT / 2\<close> are exact divisions (lemma \<open>spawn_divisions_exact\<close> below), so
  \<open>div\<close> computes them. The food is generated before the clock is read.
\<close>

definition initializeGameState :: "env \<Rightarrow> GameState \<times> env" where
  "initializeGameState e =
     (let (f, e1) = generateFood e;
          (now, e2) = Date_now e1
      in (\<lparr>snake1 = \<lparr>positions = [\<lparr>px = CANVAS_WIDTH div 4, py = CANVAS_HEIGHT div 2\<rparr>],
                      direction = RIGHT, color = GREEN, score = 0, speed = GAME_SPEED\<rparr>,
           snake2 = \<lparr>positions = [\<lparr>px = (CANVAS_WIDTH * 3) div 4, py = CANVAS_HEIGHT div 2\<rparr>],
                      direction = LEFT, color = BLUE, score = 0, speed = GAME_SPEED\<rparr>,
           food = f,
           lastUpdate = now\<rparr>, e2))"

text \<open>\<^verbatim>\<open>resetGame\<close>, lines 158-160: the old state is dropped.\<close>

definition resetGame :: "GameState \<Rightarrow> env \<Rightarrow> GameState \<times> env" where
  "resetGame s e = initializeGameState e"

subsection \<open>The simulation step (lines 96-130)\<close>

text \<open>The new head of lines 107-110, from the snake and its current head.\<close>

definition newHead :: "Snake \<Rightarrow> Position \<Rightarrow> Position" where
  "newHead snake head =
     \<lparr>px = (px head + px (direction snake) * BLOCK_SIZE + CANVAS_WIDTH) smod CANVAS_WIDTH,
      py = (py head + py (direction snake) * BLOCK_SIZE + CANVAS_HEIGHT) smod CANVAS_HEIGHT\<rparr>"

text \<open>
  The callback of \<^verbatim>\<open>forEach\<close>, lines 105-121, for one snake. \<open>food0\<close> is the constant
  \<^verbatim>\<open>food\<close> that line 97 destructured from the state before the loop: the test of line 115
  reads it, while line 117 assigns \<^verbatim>\<open>this.gameState.food\<close>, the \<open>cur\<close> threaded here.
  \<^verbatim>\<open>unshift\<close> is \<open>#\<close>, \<^verbatim>\<open>pop\<close> is \<open>butlast\<close>.
\<close>

definition moveSnake :: "Food \<Rightarrow> Snake \<Rightarrow> Food \<Rightarrow> env \<Rightarrow> error + (Snake \<times> Food \<times> env)" where
  "moveSnake food0 snake cur e =
     (case positions snake of
        [] \<Rightarrow> Inl TypeError
      | head # rest \<Rightarrow>
          (let nh = newHead snake head;
               ps = nh # positions snake
           in if px nh = px (position food0) \<and> py nh = py (position food0)
              then (let (f, e1) = generateFood e
                    in Inr (snake\<lparr>positions := ps, score := score snake + 1\<rparr>, f, e1))
              else Inr (snake\<lparr>positions := butlast ps\<rparr>, cur, e)))"

text \<open>The whole \<^verbatim>\<open>forEach\<close> over \<^verbatim>\<open>[snake1, snake2]\<close>.\<close>

definition moveSnakes :: "GameState \<Rightarrow> env \<Rightarrow> error + (GameState \<times> env)" where
  "moveSnakes s e =
     (let food0 = food s in
      case moveSnake food0 (snake1 s) (food s) e of
        Inl err \<Rightarrow> Inl err
      | Inr (sn1, f1, e1) \<Rightarrow>
          (case moveSnake food0 (snake2 s) f1 e1 of
             Inl err \<Rightarrow> Inl err
           | Inr (sn2, f2, e2) \<Rightarrow> Inr (s\<lparr>snake1 := sn1, snake2 := sn2, food := f2\<rparr>, e2)))"

text \<open>
  \<^verbatim>\<open>checkCollision\<close>, lines 132-156. \<^verbatim>\<open>some\<close> is \<open>list_ex\<close>; on an empty array it
  returns false without calling the callback, so the head is only read when there is a
  cell to compare it with. \<^verbatim>\<open>||\<close> evaluates its right operand only when the left one
  is false.
\<close>

definition checkSelfCollision :: "Snake \<Rightarrow> bool" where
  "checkSelfCollision snake =
     (case positions snake of
        [] \<Rightarrow> False
      | head # rest \<Rightarrow> list_ex (\<lambda>pos. px pos = px head \<and> py pos = py head) rest)"

definition someAt :: "Position list \<Rightarrow> Position list \<Rightarrow> error + bool" where
  "someAt cells other =
     (case cells of
        [] \<Rightarrow> Inr False
      | c # cs \<Rightarrow>
          (case other of
             [] \<Rightarrow> Inl TypeError
           | head # rest \<Rightarrow> Inr (list_ex (\<lambda>pos. px pos = px head \<and> py pos = py head) cells)))"

definition checkSnakeCollision :: "GameState \<Rightarrow> error + bool" where
  "checkSnakeCollision s =
     (case someAt (positions (snake2 s)) (positions (snake1 s)) of
        Inl err \<Rightarrow> Inl err
      | Inr True \<Rightarrow> Inr True
      | Inr False \<Rightarrow> someAt (positions (snake1 s)) (positions (snake2 s)))"

definition checkCollision :: "GameState \<Rightarrow> error + bool" where
  "checkCollision s =
     (if checkSelfCollision (snake1 s) then Inr True
      else if checkSelfCollision (snake2 s) then Inr True
      else checkSnakeCollision s)"

text \<open>
  \<^verbatim>\<open>update\<close>, lines 96-130. The method has no return statement with a value: both the
  early \<^verbatim>\<open>return;\<close> of line 101 and the end of the body yield \<^verbatim>\<open>undefined\<close>.
\<close>

datatype jsval = Undefined | Boolean bool

definition update :: "GameState \<Rightarrow> env \<Rightarrow> error + (jsval \<times> GameState \<times> env)" where
  "update s e =
     (let (now, e1) = Date_now e in
      if real_of_int (now - lastUpdate s) < 1000 / real_of_int GAME_SPEED
      then Inr (Undefined, s, e1)
      else
        (case moveSnakes s e1 of
           Inl err \<Rightarrow> Inl err
         | Inr (s2, e2) \<Rightarrow>
             (case checkCollision s2 of
                Inl err \<Rightarrow> Inl err
              | Inr collision \<Rightarrow>
                  (let (s3, e3) = (if collision then resetGame s2 e2 else (s2, e2))
                   in Inr (Undefined, s3\<lparr>lastUpdate := now\<rparr>, e3)))))"

subsection \<open>Rooms and the registry (lines 48-62, 162-179)\<close>

text \<open>
  \<open>gameLoop\<close> is \<open>True\<close> when the field holds a timer and \<open>False\<close> when it is
  \<^verbatim>\<open>null\<close>: the program only tests, sets and clears it.
\<close>

record GameRoom =
  room_id :: string
  players :: "string list"
  gameState :: GameState
  gameLoop :: bool

type_synonym Rooms = "(string \<times> GameRoom) list"

text \<open>
  What a handler asks of socket.io and of the timer API, in the order of the calls. The
  two error texts of lines 196 and 201 are given by their UTF-16 code units.
\<close>

datatype effect =
    SocketJoin string string
  | EmitRoomCreated string string
  | EmitRoomJoined string
  | EmitError string "nat list"
  | SetInterval string
  | ClearInterval string

definition msgRoomMissing :: "nat list" where
  "msgRoomMissing = [0x623F, 0x95F4, 0x4E0D, 0x5B58, 0x5728]"

definition msgRoomFull :: "nat list" where
  "msgRoomFull = [0x623F, 0x95F4, 0x5DF2, 0x6EE1]"

definition startGame :: "GameRoom \<Rightarrow> GameRoom \<times> effect list" where
  "startGame room =
     (if gameLoop room then (room, [])
      else (room\<lparr>gameLoop := True\<rparr>, [SetInterval (room_id room)]))"


text \<open>\<^verbatim>\<open>Array.prototype.indexOf\<close> and \<^verbatim>\<open>splice(i, 1)\<close>.\<close>

fun indexOf :: "'a list \<Rightarrow> 'a \<Rightarrow> int" where
  "indexOf [] v = -1"
| "indexOf (a # as) v =
     (if a = v then 0 else (let i = indexOf as v in if i = -1 then -1 else i + 1))"


subsection \<open>The socket handlers (lines 184-248)\<close>


text \<open>\<^verbatim>\<open>joinRoom\<close>, lines 192-209.\<close>

definition on_joinRoom :: "string \<Rightarrow> string \<Rightarrow> Rooms \<Rightarrow> Rooms \<times> effect list" where
  "on_joinRoom socket roomId rooms =
     (case map_of rooms roomId of
        None \<Rightarrow> (rooms, [EmitError socket msgRoomMissing])
      | Some room \<Rightarrow>
          if length (players room) \<ge> 2 then (rooms, [EmitError socket msgRoomFull])
          else
            (let (room1, effs) = startGame (room\<lparr>players := players room @ [socket]\<rparr>)
             in (AList.update roomId room1 rooms,
                 [SocketJoin socket roomId, EmitRoomJoined roomId] @ effs)))"

text \<open>
  Both remaining handlers scan the registry in insertion order for the first room whose
  \<^verbatim>\<open>players\<close> contains the socket, act on it and leave the loop.
\<close>

definition findRoom :: "string \<Rightarrow> Rooms \<Rightarrow> (string \<times> GameRoom) option" where
  "findRoom socket rooms = find (\<lambda>(roomId, room). indexOf (players room) socket \<noteq> -1) rooms"

text \<open>The test of lines 221-225.\<close>

definition rejected :: "Direction \<Rightarrow> Direction \<Rightarrow> bool" where
  "rejected d currentDir =
     ((px d = 0 \<and> px currentDir = 0) \<or>
      (py d = 0 \<and> py currentDir = 0) \<or>
      (px d = - px currentDir \<and> py d = - py currentDir))"

text \<open>
  \<^verbatim>\<open>direction\<close>, lines 211-233. Line 217 picks the snake of the player by its index
  in \<^verbatim>\<open>players\<close>, and line 229 assigns the direction of that object.
\<close>

definition playerSnake :: "int \<Rightarrow> GameState \<Rightarrow> Snake" where
  "playerSnake playerIndex gs = (if playerIndex = 0 then snake1 gs else snake2 gs)"

definition setDirection :: "int \<Rightarrow> Direction \<Rightarrow> GameState \<Rightarrow> GameState" where
  "setDirection playerIndex d gs =
     (if playerIndex = 0 then gs\<lparr>snake1 := (snake1 gs)\<lparr>direction := d\<rparr>\<rparr>
      else gs\<lparr>snake2 := (snake2 gs)\<lparr>direction := d\<rparr>\<rparr>)"

definition on_direction :: "string \<Rightarrow> Direction \<Rightarrow> Rooms \<Rightarrow> Rooms" where
  "on_direction socket d rooms =
     (case findRoom socket rooms of
        None \<Rightarrow> rooms
      | Some (roomId, room) \<Rightarrow>
          (let playerIndex = indexOf (players room) socket;
               snake = playerSnake playerIndex (gameState room);
               currentDir = direction snake
           in if rejected d currentDir then rooms
              else AList.update roomId
                     (room\<lparr>gameState := setDirection playerIndex d (gameState room)\<rparr>) rooms))"


subsection \<open>Vocabulary of the specification\<close>

text \<open>
  The predicates below are not code: they are the specification's words, used to state
  the properties. A stored cell is on the grid when both coordinates are multiples of the
  block size inside the canvas.
\<close>

definition on_grid :: "Position \<Rightarrow> bool" where
  "on_grid p =
     (0 \<le> px p \<and> px p < CANVAS_WIDTH \<and> 0 \<le> py p \<and> py p < CANVAS_HEIGHT \<and>
      BLOCK_SIZE dvd px p \<and> BLOCK_SIZE dvd py p)"

definition is_direction :: "Direction \<Rightarrow> bool" where
  "is_direction d = (d = UP \<or> d = DOWN \<or> d = LEFT \<or> d = RIGHT)"

text \<open>
  What \<^verbatim>\<open>Math.random()\<close> can return: a double in \<open>[0, 1)\<close>, a 53-bit mantissa scaled
  down by a power of two.
\<close>

definition double_unit :: "real \<Rightarrow> bool" where
  "double_unit r = (\<exists>m k::nat. m < 2 ^ 53 \<and> k \<le> 1074 \<and> r = real m / 2 ^ k \<and> r < 1)"

text \<open>Both snakes have a head.\<close>

definition has_heads :: "GameState \<Rightarrow> bool" where
  "has_heads s = (positions (snake1 s) \<noteq> [] \<and> positions (snake2 s) \<noteq> [])"

text \<open>
  Self-collision: the head cell equals some cell of the remainder of the body. Mutual
  collision: the head of either snake equals some cell of the other snake's whole body.
\<close>

definition self_collision :: "Snake \<Rightarrow> bool" where
  "self_collision snake = (hd (positions snake) \<in> set (tl (positions snake)))"

definition mutual_collision :: "Snake \<Rightarrow> Snake \<Rightarrow> bool" where
  "mutual_collision a b =
     (hd (positions a) \<in> set (positions b) \<or> hd (positions b) \<in> set (positions a))"

text \<open>The tick is rate limited when the guard of line 100 holds for the time read.\<close>

definition rate_limited :: "GameState \<Rightarrow> env \<Rightarrow> bool" where
  "rate_limited s e = (real_of_int (fst (Date_now e) - lastUpdate s) < 1000 / real_of_int GAME_SPEED)"

text \<open>
  The four directions by axis, the negation of a direction, and the snake a socket
  steers in a room.
\<close>

definition vertical :: "Direction \<Rightarrow> bool" where
  "vertical d = (d = UP \<or> d = DOWN)"

definition horizontal :: "Direction \<Rightarrow> bool" where
  "horizontal d = (d = LEFT \<or> d = RIGHT)"

definition same_axis :: "Direction \<Rightarrow> Direction \<Rightarrow> bool" where
  "same_axis d c = ((vertical d \<and> vertical c) \<or> (horizontal d \<and> horizontal c))"

definition perpendicular :: "Direction \<Rightarrow> Direction \<Rightarrow> bool" where
  "perpendicular d c = ((vertical d \<and> horizontal c) \<or> (horizontal d \<and> vertical c))"

definition opposite :: "Direction \<Rightarrow> Direction" where
  "opposite d = \<lparr>px = - px d, py = - py d\<rparr>"

subsection \<open>Example inputs\<close>

text \<open>
  An environment whose draws repeat \<open>1/2, 11/32, 1/4, 7/32, 5/32, 5/32\<close> and whose clock
  reads \<open>1000, 1020, 1040, \<dots>\<close> milliseconds. The first three foods it generates are at
  \<open>(400, 200)\<close>, \<open>(200, 120)\<close> and \<open>(120, 80)\<close>.
\<close>

definition exampleEnv :: env where
  "exampleEnv = \<lparr>randoms = (\<lambda>n. [1 / 2, 11 / 32, 1 / 4, 7 / 32, 5 / 32, 5 / 32] ! (n mod 6)),
                  drawn = 0, clock = (\<lambda>n. 1000 + 20 * int n), reads = 0\<rparr>"

text \<open>
  An environment whose draws alternate between two doubles just below \<open>18 / 40\<close> and
  \<open>17 / 30\<close>.
\<close>

definition roundingEnv :: env where
  "roundingEnv =
     \<lparr>randoms = (\<lambda>n. if even n then 2026619832316723 / 2 ^ 52 else 2552039788843281 / 2 ^ 52),
      drawn = 0, clock = (\<lambda>n. 1000 + 20 * int n), reads = 0\<rparr>"

text \<open>Both snakes one step away from the food cell \<open>(200, 300)\<close>, from either side.\<close>

definition faceOff :: GameState where
  "faceOff =
     \<lparr>snake1 = \<lparr>positions = [\<lparr>px = 180, py = 300\<rparr>], direction = RIGHT, color = GREEN,
                 score = 0, speed = GAME_SPEED\<rparr>,
      snake2 = \<lparr>positions = [\<lparr>px = 220, py = 300\<rparr>, \<lparr>px = 240, py = 300\<rparr>], direction = LEFT,
                 color = BLUE, score = 1, speed = GAME_SPEED\<rparr>,
      food = \<lparr>position = \<lparr>px = 200, py = 300\<rparr>, fcolor = RED\<rparr>,
      lastUpdate = 0\<rparr>"

text \<open>The first snake one step away from the food, the second far from it.\<close>

definition chase :: GameState where
  "chase =
     \<lparr>snake1 = \<lparr>positions = [\<lparr>px = 180, py = 300\<rparr>], direction = RIGHT, color = GREEN,
                 score = 0, speed = GAME_SPEED\<rparr>,
      snake2 = \<lparr>positions = [\<lparr>px = 600, py = 300\<rparr>, \<lparr>px = 620, py = 300\<rparr>], direction = LEFT,
                 color = BLUE, score = 1, speed = GAME_SPEED\<rparr>,
      food = \<lparr>position = \<lparr>px = 200, py = 300\<rparr>, fcolor = RED\<rparr>,
      lastUpdate = 0\<rparr>"

text \<open>
  The first snake one step away from the food, the second one step away from the cell
  \<open>(400, 200)\<close> where the example environment respawns the food.
\<close>

definition relay :: GameState where
  "relay =
     \<lparr>snake1 = \<lparr>positions = [\<lparr>px = 180, py = 300\<rparr>], direction = RIGHT, color = GREEN,
                 score = 0, speed = GAME_SPEED\<rparr>,
      snake2 = \<lparr>positions = [\<lparr>px = 420, py = 200\<rparr>, \<lparr>px = 440, py = 200\<rparr>], direction = LEFT,
                 color = BLUE, score = 1, speed = GAME_SPEED\<rparr>,
      food = \<lparr>position = \<lparr>px = 200, py = 300\<rparr>, fcolor = RED\<rparr>,
      lastUpdate = 0\<rparr>"

text \<open>The state right after construction, with the food at \<open>(400, 200)\<close>.\<close>

definition spawned :: GameState where
  "spawned =
     \<lparr>snake1 = \<lparr>positions = [\<lparr>px = 200, py = 300\<rparr>], direction = RIGHT, color = GREEN,
                 score = 0, speed = GAME_SPEED\<rparr>,
      snake2 = \<lparr>positions = [\<lparr>px = 600, py = 300\<rparr>], direction = LEFT,
                 color = BLUE, score = 0, speed = GAME_SPEED\<rparr>,
      food = \<lparr>position = \<lparr>px = 400, py = 200\<rparr>, fcolor = RED\<rparr>,
      lastUpdate = 0\<rparr>"

text \<open>A registry with a running room of two players and a waiting room of one.\<close>

definition roomA :: GameRoom where
  "roomA = \<lparr>room_id = ''room-a'', players = [''alice'', ''bob''], gameState = chase, gameLoop = True\<rparr>"

definition roomB :: GameRoom where
  "roomB = \<lparr>room_id = ''room-b'', players = [''carol''], gameState = spawned, gameLoop = False\<rparr>"

definition exampleRooms :: Rooms where
  "exampleRooms = [(''room-a'', roomA), (''room-b'', roomB)]"


text \<open>The states the examples reach: after both snakes moved, and after the reset.\<close>

definition faceOffMoved :: GameState where
  "faceOffMoved =
     \<lparr>snake1 = \<lparr>positions = [\<lparr>px = 200, py = 300\<rparr>, \<lparr>px = 180, py = 300\<rparr>], direction = RIGHT,
                 color = GREEN, score = 1, speed = GAME_SPEED\<rparr>,
      snake2 = \<lparr>positions = [\<lparr>px = 200, py = 300\<rparr>, \<lparr>px = 220, py = 300\<rparr>, \<lparr>px = 240, py = 300\<rparr>],
                 direction = LEFT, color = BLUE, score = 2, speed = GAME_SPEED\<rparr>,
      food = \<lparr>position = \<lparr>px = 200, py = 120\<rparr>, fcolor = RED\<rparr>,
      lastUpdate = 0\<rparr>"

definition chaseMoved :: GameState where
  "chaseMoved =
     \<lparr>snake1 = \<lparr>positions = [\<lparr>px = 200, py = 300\<rparr>, \<lparr>px = 180, py = 300\<rparr>], direction = RIGHT,
                 color = GREEN, score = 1, speed = GAME_SPEED\<rparr>,
      snake2 = \<lparr>positions = [\<lparr>px = 580, py = 300\<rparr>, \<lparr>px = 600, py = 300\<rparr>], direction = LEFT,
                 color = BLUE, score = 1, speed = GAME_SPEED\<rparr>,
      food = \<lparr>position = \<lparr>px = 400, py = 200\<rparr>, fcolor = RED\<rparr>,
      lastUpdate = 0\<rparr>"

definition relayMoved :: GameState where
  "relayMoved =
     \<lparr>snake1 = \<lparr>positions = [\<lparr>px = 200, py = 300\<rparr>, \<lparr>px = 180, py = 300\<rparr>], direction = RIGHT,
                 color = GREEN, score = 1, speed = GAME_SPEED\<rparr>,
      snake2 = \<lparr>positions = [\<lparr>px = 400, py = 200\<rparr>, \<lparr>px = 420, py = 200\<rparr>], direction = LEFT,
                 color = BLUE, score = 1, speed = GAME_SPEED\<rparr>,
      food = \<lparr>position = \<lparr>px = 400, py = 200\<rparr>, fcolor = RED\<rparr>,
      lastUpdate = 0\<rparr>"

definition respawned :: GameState where
  "respawned =
     \<lparr>snake1 = \<lparr>positions = [\<lparr>px = 200, py = 300\<rparr>], direction = RIGHT, color = GREEN,
                 score = 0, speed = GAME_SPEED\<rparr>,
      snake2 = \<lparr>positions = [\<lparr>px = 600, py = 300\<rparr>], direction = LEFT,
                 color = BLUE, score = 0, speed = GAME_SPEED\<rparr>,
      food = \<lparr>position = \<lparr>px = 120, py = 80\<rparr>, fcolor = RED\<rparr>,
      lastUpdate = 1000\<rparr>"

section \<open>Properties\<close>

lemma spawn_divisions_exact:
  "4 dvd CANVAS_WIDTH" "4 dvd CANVAS_WIDTH * 3" "2 dvd CANVAS_HEIGHT" "BLOCK_SIZE dvd CANVAS_WIDTH"
  "BLOCK_SIZE dvd CANVAS_HEIGHT"
  by (simp_all add: CANVAS_WIDTH_def CANVAS_HEIGHT_def BLOCK_SIZE_def)

subsection \<open>Wrap-around and food generation\<close>

lemma smod_nonneg: "0 \<le> a \<Longrightarrow> 0 < b \<Longrightarrow> a smod b = a mod (b::int)"
  by (cases "a = 0") (simp_all add: smod_int_alt_def sgn_if)

lemma smod_wrap: "0 \<le> a + d + w \<Longrightarrow> 0 < w \<Longrightarrow> (a + d + w) smod w = (a + d) mod (w::int)"
  by (simp add: smod_nonneg)

lemma newHead_mod:
  assumes "on_grid p" "is_direction (direction snake)"
  shows "newHead snake p = \<lparr>px = (px p + px (direction snake) * BLOCK_SIZE) mod CANVAS_WIDTH,
                             py = (py p + py (direction snake) * BLOCK_SIZE) mod CANVAS_HEIGHT\<rparr>"
proof -
  have "0 \<le> px p + px (direction snake) * BLOCK_SIZE + CANVAS_WIDTH"
    "0 \<le> py p + py (direction snake) * BLOCK_SIZE + CANVAS_HEIGHT"
    using assms
    unfolding on_grid_def is_direction_def UP_def DOWN_def LEFT_def RIGHT_def
      CANVAS_WIDTH_def CANVAS_HEIGHT_def BLOCK_SIZE_def
    by auto
  moreover have "0 < CANVAS_WIDTH" "0 < CANVAS_HEIGHT"
    by (simp_all add: CANVAS_WIDTH_def CANVAS_HEIGHT_def)
  ultimately show ?thesis
    unfolding newHead_def by (simp only: smod_wrap)
qed

lemma newHead_on_grid:
  assumes "on_grid p" "is_direction (direction snake)"
  shows "on_grid (newHead snake p)"
proof -
  have "BLOCK_SIZE dvd px (direction snake) * BLOCK_SIZE"
    "BLOCK_SIZE dvd py (direction snake) * BLOCK_SIZE"
    by simp_all
  with assms(1) have "BLOCK_SIZE dvd (px p + px (direction snake) * BLOCK_SIZE) mod CANVAS_WIDTH"
    "BLOCK_SIZE dvd (py p + py (direction snake) * BLOCK_SIZE) mod CANVAS_HEIGHT"
    unfolding on_grid_def using spawn_divisions_exact(4,5)
    by (simp_all add: dvd_mod)
  then show ?thesis
    unfolding newHead_mod[OF assms] unfolding on_grid_def
    by (simp add: CANVAS_WIDTH_def CANVAS_HEIGHT_def)
qed

lemma binade_up_bounds: "0 < p \<Longrightarrow> p \<le> x \<Longrightarrow> 0 < binade_up fuel p x \<and> binade_up fuel p x \<le> x"
proof (induction fuel p x rule: binade_up.induct)
  case (1 fuel p x)
  show ?case
  proof (cases "fuel = 0 \<or> x < 2 * p")
    case True
    then show ?thesis using "1.prems" by (simp add: binade_up.simps[of fuel p x])
  next
    case False
    then have "0 < 2 * p" "2 * p \<le> x" using "1.prems" by simp_all
    with "1.IH"[OF False] False show ?thesis by (simp add: binade_up.simps[of fuel p x])
  qed
qed

lemma binade_down_bounds: "0 < p \<Longrightarrow> 0 < binade_down fuel p x \<and> binade_down fuel p x \<le> p"
proof (induction fuel p x rule: binade_down.induct)
  case (1 fuel p x)
  show ?case
  proof (cases "fuel = 0 \<or> p \<le> x")
    case True
    then show ?thesis using "1.prems" by (simp add: binade_down.simps[of fuel p x])
  next
    case False
    have "0 < p / 2" using "1.prems" by simp
    with "1.IH"[OF False] False "1.prems" show ?thesis
      by (simp add: binade_down.simps[of fuel p x])
  qed
qed

lemma binade_bounds: "0 < binade x \<and> binade x \<le> max 1 x"
proof (cases "1 \<le> x")
  case True
  then show ?thesis using binade_up_bounds[of 1 x 1023] by (simp add: binade_def)
next
  case False
  then show ?thesis using binade_down_bounds[of 1 1022 x] by (simp add: binade_def)
qed

lemma toDouble_bounds:
  assumes "0 \<le> x"
  shows "0 \<le> toDouble x" and "toDouble x \<le> x + binade x / 2 ^ 53"
proof -
  define q where "q = binade x / 2 ^ 52"
  define n where "n = \<lfloor>x / q\<rfloor>"
  define f where "f = x / q - of_int n"
  have q: "0 < q" unfolding q_def using binade_bounds[of x] by simp
  have n: "0 \<le> n" unfolding n_def using assms q by simp
  have lo: "of_int n * q \<le> x"
    unfolding n_def using q by (simp add: pos_le_divide_eq[symmetric])
  have up: "of_int (n + 1) * q = x + (1 - f) * q"
    unfolding f_def using q by (simp add: algebra_simps)
  have half: "q / 2 = binade x / 2 ^ 53" unfolding q_def by simp
  have td: "toDouble x =
      (if f < 1 / 2 then of_int n * q
       else if 1 / 2 < f then of_int (n + 1) * q
       else if even n then of_int n * q else of_int (n + 1) * q)"
    unfolding toDouble_def Let_def q_def[symmetric] n_def[symmetric] f_def[symmetric] ..
  have nn: "0 \<le> of_int n * q" "0 \<le> of_int (n + 1) * q" using n q by simp_all
  show "0 \<le> toDouble x" unfolding td using nn by simp
  have "of_int n * q \<le> x + q / 2" using lo q by simp
  moreover have "of_int (n + 1) * q \<le> x + q / 2" if "1 / 2 \<le> f"
  proof -
    have "(1 - f) * q \<le> (1 / 2) * q" using that q by (intro mult_right_mono) simp_all
    then show ?thesis unfolding up by simp
  qed
  ultimately show "toDouble x \<le> x + binade x / 2 ^ 53"
    unfolding td half[symmetric] by auto
qed

lemma toDouble_scaled:
  assumes "0 \<le> r" "r \<le> 1 - 1 / 2 ^ 53" "2 \<le> c"
  shows "0 \<le> toDouble (r * c) \<and> toDouble (r * c) < c"
proof -
  have x0: "0 \<le> r * c" using assms by simp
  have xc: "r * c \<le> (1 - 1 / 2 ^ 53) * c" using assms by (intro mult_right_mono) simp_all
  have b: "binade (r * c) \<le> max 1 (r * c)" using binade_bounds by blast
  have "toDouble (r * c) \<le> r * c + max 1 (r * c) / 2 ^ 53"
    using toDouble_bounds(2)[OF x0] b by (simp add: divide_right_mono add_left_mono order_trans[OF _ add_left_mono])
  moreover have "r * c + max 1 (r * c) / 2 ^ 53 < c"
  proof (cases "1 \<le> r * c")
    case True
    then have "r * c + max 1 (r * c) / 2 ^ 53 = r * c * (1 + 1 / 2 ^ 53)" by (simp add: algebra_simps max_def)
    also have "\<dots> \<le> (1 - 1 / 2 ^ 53) * c * (1 + 1 / 2 ^ 53)"
      using mult_right_mono[OF xc, of "1 + 1 / 2 ^ 53"] by simp
    also have "\<dots> = c * (1 - (1 / 2 ^ 53) * (1 / 2 ^ 53))" by (simp add: algebra_simps)
    also have "\<dots> < c" using assms(3) by simp
    finally show ?thesis .
  next
    case False
    then have "r * c + max 1 (r * c) / 2 ^ 53 < 1 + 1" by (simp add: max_def add_strict_mono)
    then show ?thesis using assms(3) by simp
  qed
  ultimately show ?thesis using toDouble_bounds(1)[OF x0] by simp
qed

lemma double_unit_bounds:
  assumes "double_unit r"
  shows "0 \<le> r" and "r \<le> 1 - 1 / 2 ^ 53"
proof -
  from assms obtain m k :: nat where m: "m < 2 ^ 53" and r: "r = real m / 2 ^ k" and lt: "r < 1"
    unfolding double_unit_def by blast
  show "0 \<le> r" unfolding r by simp
  show "r \<le> 1 - 1 / 2 ^ 53"
  proof (cases "k \<le> 53")
    case True
    have "real m < 2 ^ k" using lt unfolding r by (simp add: field_simps)
    then have "m < 2 ^ k" by (metis of_nat_less_iff of_nat_numeral of_nat_power)
    then have "real m \<le> 2 ^ k - 1"
      by (metis Suc_leI of_nat_Suc of_nat_le_iff of_nat_numeral of_nat_power le_diff_eq add.commute)
    then have "r \<le> (2 ^ k - 1) / 2 ^ k" unfolding r by (simp add: divide_right_mono)
    also have "\<dots> = 1 - 1 / 2 ^ k" by (simp add: field_simps)
    also have "\<dots> \<le> 1 - 1 / 2 ^ 53"
    proof -
      have "(2::real) ^ k \<le> 2 ^ 53" using True by (intro power_increasing) simp_all
      then have "1 / (2::real) ^ 53 \<le> 1 / 2 ^ k" by (intro divide_left_mono) simp_all
      then show ?thesis by simp
    qed
    finally show ?thesis .
  next
    case False
    then have "(2::real) ^ 54 \<le> 2 ^ k" by (intro power_increasing) simp_all
    then have "1 / (2::real) ^ k \<le> 1 / 2 ^ 54" by (intro divide_left_mono) simp_all
    moreover have "real m \<le> 2 ^ 53" using m by (metis less_imp_le of_nat_le_iff of_nat_numeral of_nat_power)
    ultimately have "real m * (1 / 2 ^ k) \<le> 2 ^ 53 * (1 / 2 ^ 54)" by (intro mult_mono) simp_all
    then have "r \<le> 1 / 2" unfolding r by simp
    then show ?thesis by simp
  qed
qed

lemma double_unitI:
  "m < 2 ^ 53 \<Longrightarrow> k \<le> 1074 \<Longrightarrow> real m / 2 ^ k < 1 \<Longrightarrow> double_unit (real m / 2 ^ k)"
  unfolding double_unit_def by blast

lemma floor_scaled:
  assumes "double_unit r" "2 \<le> n"
  shows "0 \<le> \<lfloor>toDouble (r * real_of_int n)\<rfloor> \<and> \<lfloor>toDouble (r * real_of_int n)\<rfloor> < n"
proof -
  have "0 \<le> toDouble (r * real_of_int n) \<and> toDouble (r * real_of_int n) < real_of_int n"
    using toDouble_scaled[OF double_unit_bounds[OF assms(1)], of "real_of_int n"] assms(2) by simp
  then show ?thesis by (simp add: floor_less_iff)
qed

lemma food_on_grid:
  assumes "double_unit (randoms e (drawn e))" "double_unit (randoms e (Suc (drawn e)))"
  shows "on_grid (position (fst (generateFood e)))"
  using floor_scaled[OF assms(1), of 40] floor_scaled[OF assms(2), of 30]
  by (simp add: generateFood_def Math_random_def on_grid_def
      CANVAS_WIDTH_def CANVAS_HEIGHT_def BLOCK_SIZE_def)

text \<open>
  The rounding decides the cell. On the draws of \<open>roundingEnv\<close> the exact products with 40
  and 30 are below 18 and 17, the double products are 18 and 17, and the food is at
  \<open>(360, 340)\<close>, not at \<open>(340, 320)\<close>.
\<close>

lemma rounding_decides_cell:
  "\<lfloor>(2026619832316723 / 2 ^ 52 * 40 :: real)\<rfloor> = 17"
  "\<lfloor>toDouble (2026619832316723 / 2 ^ 52 * 40)\<rfloor> = 18"
  "\<lfloor>(2552039788843281 / 2 ^ 52 * 30 :: real)\<rfloor> = 16"
  "\<lfloor>toDouble (2552039788843281 / 2 ^ 52 * 30)\<rfloor> = 17"
  by (simp_all add: toDouble_def binade_def binade_up.simps binade_down.simps Let_def)

lemma rounding_decides_food:
  "position (fst (generateFood roundingEnv)) = \<lparr>px = 360, py = 340\<rparr>"
  using rounding_decides_cell(2,4)
  by (simp add: generateFood_def Math_random_def roundingEnv_def
      CANVAS_WIDTH_def CANVAS_HEIGHT_def BLOCK_SIZE_def)

text \<open>
  Claim C5. For a stored position on the grid (both coordinates multiples of the block
  size, inside the canvas) and each of the four directions, the new head of one step is
  on the grid again, and it is the position moved by one block modulo the canvas size
  (the mathematical modulus, also for the two negative deltas). The food that
  \<^verbatim>\<open>generateFood\<close> produces is on the grid as well, whatever doubles in \<open>[0, 1)\<close>
  \<^verbatim>\<open>Math.random()\<close> returns: the largest of them is \<open>1 - 2 ^ - 53\<close>, and its rounded
  product with 40 or 30 stays below 40 or 30.
\<close>

theorem wrap_invariant:
  fixes p :: Position and snake :: Snake and e :: env
  shows "(on_grid p \<and> is_direction (direction snake) \<longrightarrow>
            on_grid (newHead snake p) \<and>
            newHead snake p =
              \<lparr>px = (px p + px (direction snake) * BLOCK_SIZE) mod CANVAS_WIDTH,
               py = (py p + py (direction snake) * BLOCK_SIZE) mod CANVAS_HEIGHT\<rparr>) \<and>
         (double_unit (randoms e (drawn e)) \<and> double_unit (randoms e (Suc (drawn e))) \<longrightarrow>
            on_grid (position (fst (generateFood e))))"
  using newHead_on_grid newHead_mod food_on_grid by blast

theorem wrap_invariant_witness:
  "on_grid \<lparr>px = 0, py = 300\<rparr> \<and> is_direction (direction (snake2 faceOff)) \<and>
   newHead (snake2 faceOff) \<lparr>px = 0, py = 300\<rparr> = \<lparr>px = 780, py = 300\<rparr> \<and>
   on_grid (newHead (snake2 faceOff) \<lparr>px = 0, py = 300\<rparr>) \<and>
   randoms exampleEnv (drawn exampleEnv) = 1 / 2 \<and>
   randoms exampleEnv (Suc (drawn exampleEnv)) = 11 / 32 \<and>
   double_unit (randoms exampleEnv (drawn exampleEnv)) \<and>
   double_unit (randoms exampleEnv (Suc (drawn exampleEnv))) \<and>
   position (fst (generateFood exampleEnv)) = \<lparr>px = 400, py = 200\<rparr> \<and>
   on_grid (position (fst (generateFood exampleEnv)))"
proof -
  have r: "randoms exampleEnv (drawn exampleEnv) = 1 / 2"
    "randoms exampleEnv (Suc (drawn exampleEnv)) = 11 / 32"
    by (simp_all add: exampleEnv_def)
  have d: "double_unit (1 / 2)" "double_unit (11 / 32)"
    using double_unitI[of 1 1] double_unitI[of 11 5] by simp_all
  have g: "on_grid \<lparr>px = 0, py = 300\<rparr>" "is_direction (direction (snake2 faceOff))"
    by (simp_all add: on_grid_def is_direction_def faceOff_def
        CANVAS_WIDTH_def CANVAS_HEIGHT_def BLOCK_SIZE_def)
  have n: "newHead (snake2 faceOff) \<lparr>px = 0, py = 300\<rparr> = \<lparr>px = 780, py = 300\<rparr>"
    by (simp add: newHead_def faceOff_def LEFT_def smod_int_alt_def
        CANVAS_WIDTH_def CANVAS_HEIGHT_def BLOCK_SIZE_def)
  have t: "toDouble 20 = 20" "toDouble (165 / 16) = 165 / 16"
    by (simp_all add: toDouble_def binade_def binade_up.simps binade_down.simps Let_def)
  have f: "position (fst (generateFood exampleEnv)) = \<lparr>px = 400, py = 200\<rparr>"
    by (simp add: generateFood_def Math_random_def exampleEnv_def t
        CANVAS_WIDTH_def CANVAS_HEIGHT_def BLOCK_SIZE_def)
  have d': "double_unit (randoms exampleEnv (drawn exampleEnv))"
    "double_unit (randoms exampleEnv (Suc (drawn exampleEnv)))"
    unfolding r by (rule d)+
  from wrap_invariant [of "\<lparr>px = 0, py = 300\<rparr>" "snake2 faceOff" exampleEnv] g d'
  have "on_grid (newHead (snake2 faceOff) \<lparr>px = 0, py = 300\<rparr>) \<and>
        on_grid (position (fst (generateFood exampleEnv)))"
    by blast
  then show ?thesis using r d' g n f by blast
qed

subsection \<open>Evaluating the examples\<close>

text \<open>The six products of the example draws are doubles, so rounding leaves them.\<close>

lemma toDouble_exact:
  "toDouble 20 = 20" "toDouble (165 / 16) = 165 / 16" "toDouble 10 = 10"
  "toDouble (105 / 16) = 105 / 16" "toDouble (25 / 4) = 25 / 4" "toDouble (75 / 16) = 75 / 16"
  by (simp_all add: toDouble_def binade_def binade_up.simps binade_down.simps Let_def)

lemmas example_defs =
  exampleEnv_def newHead_def Let_def generateFood_def Math_random_def Date_now_def
  toDouble_exact
  RIGHT_def LEFT_def smod_int_alt_def CANVAS_WIDTH_def CANVAS_HEIGHT_def BLOCK_SIZE_def
  GAME_SPEED_def

subsection \<open>Collision detection\<close>

lemma some_cell:
  "list_ex (\<lambda>pos. px pos = px h \<and> py pos = py h) cells \<longleftrightarrow> (h::Position) \<in> set cells"
  by (induction cells) (auto simp: Position.equality)

lemma checkSelfCollision_heads:
  "positions snake \<noteq> [] \<Longrightarrow> checkSelfCollision snake = self_collision snake"
  by (cases "positions snake") (simp_all add: checkSelfCollision_def self_collision_def some_cell)

lemma someAt_heads:
  "cells \<noteq> [] \<Longrightarrow> other \<noteq> [] \<Longrightarrow> someAt cells other = Inr (hd other \<in> set cells)"
  by (cases cells; cases other) (simp_all add: someAt_def some_cell)

lemma checkSnakeCollision_heads:
  "has_heads s \<Longrightarrow> checkSnakeCollision s = Inr (mutual_collision (snake1 s) (snake2 s))"
  by (auto simp: checkSnakeCollision_def has_heads_def someAt_heads mutual_collision_def
      split: bool.splits)

lemma checkCollision_heads:
  "has_heads s \<Longrightarrow>
   checkCollision s =
     Inr (self_collision (snake1 s) \<or> self_collision (snake2 s) \<or>
          mutual_collision (snake1 s) (snake2 s))"
  by (simp add: checkCollision_def checkSnakeCollision_heads checkSelfCollision_heads has_heads_def)

subsection \<open>The move of the two snakes\<close>

lemma moveSnake_Cons:
  "positions snake = h # t \<Longrightarrow>
   moveSnake food0 snake cur e =
     (if newHead snake h = position food0
      then Inr (snake\<lparr>positions := newHead snake h # h # t, score := score snake + 1\<rparr>,
                fst (generateFood e), snd (generateFood e))
      else Inr (snake\<lparr>positions := newHead snake h # butlast (h # t)\<rparr>, cur, e))"
  by (cases "newHead snake h", cases "position food0")
     (simp add: moveSnake_def Let_def split: prod.splits)

lemma moveSnake_Inr:
  assumes "moveSnake food0 snake cur e = Inr (sn, f, e1)"
  shows "positions sn \<noteq> []"
proof (cases "positions snake")
  case Nil
  with assms show ?thesis by (simp add: moveSnake_def)
next
  case (Cons h t)
  with assms show ?thesis by (auto simp: moveSnake_Cons split: if_splits)
qed

lemma moveSnakes_Inr:
  assumes "moveSnakes s e = Inr (s2, e2)"
  shows "has_heads s2"
proof -
  from assms obtain sn1 f1 e1 sn2 f2 where
    1: "moveSnake (food s) (snake1 s) (food s) e = Inr (sn1, f1, e1)" and
    2: "moveSnake (food s) (snake2 s) f1 e1 = Inr (sn2, f2, e2)" and
    3: "s2 = s\<lparr>snake1 := sn1, snake2 := sn2, food := f2\<rparr>"
    unfolding moveSnakes_def Let_def by (auto split: sum.splits)
  from moveSnake_Inr[OF 1] moveSnake_Inr[OF 2] 3 show ?thesis
    by (simp add: has_heads_def)
qed

lemma moveSnake_heads:
  assumes "positions snake \<noteq> []"
  shows "\<exists>sn f e1. moveSnake food0 snake cur e = Inr (sn, f, e1)"
proof -
  from assms obtain h t where "positions snake = h # t" by (cases "positions snake") auto
  then show ?thesis by (simp add: moveSnake_Cons)
qed

lemma moveSnakes_heads:
  assumes "has_heads s"
  shows "\<exists>s2 e2. moveSnakes s e = Inr (s2, e2)"
proof -
  from assms obtain sn1 f1 e1 where 1: "moveSnake (food s) (snake1 s) (food s) e = Inr (sn1, f1, e1)"
    using moveSnake_heads unfolding has_heads_def by blast
  from assms obtain sn2 f2 e2 where 2: "moveSnake (food s) (snake2 s) f1 e1 = Inr (sn2, f2, e2)"
    using moveSnake_heads unfolding has_heads_def by blast
  show ?thesis unfolding moveSnakes_def Let_def by (simp add: 1 2)
qed

lemma initializeGameState_heads: "has_heads (fst (initializeGameState e))"
  by (simp add: initializeGameState_def has_heads_def Let_def split: prod.splits)

lemma update_limited:
  "rate_limited s e \<Longrightarrow> update s e = Inr (Undefined, s, snd (Date_now e))"
  by (simp add: update_def rate_limited_def case_prod_beta)

lemma update_advance:
  assumes "\<not> rate_limited s e" "moveSnakes s (snd (Date_now e)) = Inr (s2, e2)" "checkCollision s2 = Inr c"
  shows "update s e =
     Inr (Undefined,
          (if c then fst (resetGame s2 e2) else s2)\<lparr>lastUpdate := fst (Date_now e)\<rparr>,
          (if c then snd (resetGame s2 e2) else e2))"
  using assms
  by (simp add: update_def rate_limited_def case_prod_beta)

lemma moveSnakes_Cons:
  fixes s :: GameState
  assumes "positions (snake1 s) = h1 # t1" "positions (snake2 s) = h2 # t2"
  shows "moveSnakes s e =
     Inr (s\<lparr>snake1 := (if newHead (snake1 s) h1 = position (food s)
                        then (snake1 s)\<lparr>positions := newHead (snake1 s) h1 # h1 # t1,
                                        score := score (snake1 s) + 1\<rparr>
                        else (snake1 s)\<lparr>positions := newHead (snake1 s) h1 # butlast (h1 # t1)\<rparr>),
             snake2 := (if newHead (snake2 s) h2 = position (food s)
                        then (snake2 s)\<lparr>positions := newHead (snake2 s) h2 # h2 # t2,
                                        score := score (snake2 s) + 1\<rparr>
                        else (snake2 s)\<lparr>positions := newHead (snake2 s) h2 # butlast (h2 # t2)\<rparr>),
             food := (if newHead (snake2 s) h2 = position (food s)
                      then fst (generateFood (if newHead (snake1 s) h1 = position (food s)
                                              then snd (generateFood e) else e))
                      else if newHead (snake1 s) h1 = position (food s)
                           then fst (generateFood e) else food s)\<rparr>,
          (if newHead (snake2 s) h2 = position (food s)
           then snd (generateFood (if newHead (snake1 s) h1 = position (food s)
                                   then snd (generateFood e) else e))
           else if newHead (snake1 s) h1 = position (food s)
                then snd (generateFood e) else e))"
  unfolding moveSnakes_def Let_def
  by (cases "newHead (snake1 s) h1 = position (food s)";
      cases "newHead (snake2 s) h2 = position (food s)")
     (simp_all add: moveSnake_Cons[OF assms(1)] moveSnake_Cons[OF assms(2)] case_prod_beta)

lemma faceOff_moved:
  "moveSnakes faceOff (exampleEnv\<lparr>reads := k\<rparr>) = Inr (faceOffMoved, exampleEnv\<lparr>drawn := 4, reads := k\<rparr>)"
  by (simp add: moveSnakes_def moveSnake_def faceOff_def faceOffMoved_def example_defs)

lemma chase_moved':
  "moveSnakes chase (exampleEnv\<lparr>reads := k\<rparr>) = Inr (chaseMoved, exampleEnv\<lparr>drawn := 2, reads := k\<rparr>)"
  by (simp add: moveSnakes_def moveSnake_def chase_def chaseMoved_def example_defs)

lemma relay_moved:
  "moveSnakes relay (exampleEnv\<lparr>reads := k\<rparr>) = Inr (relayMoved, exampleEnv\<lparr>drawn := 2, reads := k\<rparr>)"
  by (simp add: moveSnakes_def moveSnake_def relay_def relayMoved_def example_defs)

lemma relay_advances: "\<not> rate_limited relay exampleEnv"
  by (simp add: rate_limited_def relay_def example_defs)

lemma chase_no_collision: "checkCollision chaseMoved = Inr False"
  by (simp add: chaseMoved_def checkCollision_def checkSelfCollision_def
      checkSnakeCollision_def someAt_def)

lemma chase_advances: "\<not> rate_limited chase exampleEnv"
  by (simp add: rate_limited_def chase_def example_defs)

lemma chase_updated:
  "update chase exampleEnv =
     Inr (Undefined, chaseMoved\<lparr>lastUpdate := 1000\<rparr>, exampleEnv\<lparr>drawn := 2, reads := 1\<rparr>)"
  using update_advance[OF chase_advances _ chase_no_collision, of "exampleEnv\<lparr>drawn := 2, reads := 1\<rparr>"]
    chase_moved'[of 1]
  by (simp add: example_defs)

lemma faceOff_advances: "\<not> rate_limited faceOff exampleEnv"
  by (simp add: rate_limited_def faceOff_def example_defs)

text \<open>
  Claim C2. The check that \<^verbatim>\<open>update\<close> evaluates on the state after both snakes have
  moved returns true exactly when the first snake collides with itself, or the second
  does, or the two collide with each other: a head equal to a cell of the rest of its own
  body, or equal to any cell of the other body, its head included. Two heads on one cell
  are therefore a collision.
\<close>

theorem termination_check:
  fixes s0 s :: GameState
  assumes "moveSnakes s0 e = Inr (s, e')"
  shows "checkCollision s =
           Inr (self_collision (snake1 s) \<or> self_collision (snake2 s) \<or>
                mutual_collision (snake1 s) (snake2 s)) \<and>
         (hd (positions (snake1 s)) = hd (positions (snake2 s)) \<longrightarrow>
            checkCollision s = Inr True)"
proof -
  have h: "has_heads s" using assms by (rule moveSnakes_Inr)
  then show ?thesis
    by (simp add: checkCollision_heads) (simp add: has_heads_def mutual_collision_def)
qed

theorem termination_check_witness:
  "moveSnakes faceOff (exampleEnv\<lparr>reads := 1\<rparr>) = Inr (faceOffMoved, exampleEnv\<lparr>drawn := 4, reads := 1\<rparr>) \<and>
   checkCollision faceOffMoved = Inr True \<and>
   \<not> self_collision (snake1 faceOffMoved) \<and> \<not> self_collision (snake2 faceOffMoved) \<and>
   mutual_collision (snake1 faceOffMoved) (snake2 faceOffMoved) \<and>
   hd (positions (snake1 faceOffMoved)) = hd (positions (snake2 faceOffMoved))"
  using termination_check [OF faceOff_moved [of 1]] faceOff_moved [of 1]
  by (simp add: faceOffMoved_def self_collision_def mutual_collision_def)

text \<open>
  Claim C10. Each snake has at least one position after \<^verbatim>\<open>initializeGameState\<close> and
  after \<^verbatim>\<open>resetGame\<close>, and \<^verbatim>\<open>update\<close> keeps it so: from a state where both snakes
  have a head, the move of both snakes, the collision check and the whole update all
  return a value (no read of a missing head throws) and both snakes of the result have a
  head again.
\<close>

theorem positions_nonempty:
  fixes s :: GameState
  shows "has_heads (fst (initializeGameState e)) \<and>
         has_heads (fst (resetGame s e)) \<and>
         (has_heads s \<longrightarrow>
            (\<exists>s2 e2. moveSnakes s e = Inr (s2, e2) \<and> has_heads s2) \<and>
            (\<exists>c. checkCollision s = Inr c) \<and>
            (\<exists>s' e'. update s e = Inr (Undefined, s', e') \<and> has_heads s'))"
proof (intro conjI impI)
  show "has_heads (fst (initializeGameState e))" by (rule initializeGameState_heads)
  show "has_heads (fst (resetGame s e))" by (simp add: resetGame_def initializeGameState_heads)
next
  assume h: "has_heads s"
  show "\<exists>s2 e2. moveSnakes s e = Inr (s2, e2) \<and> has_heads s2"
    using moveSnakes_heads[OF h] moveSnakes_Inr by blast
  show "\<exists>c. checkCollision s = Inr c" using checkCollision_heads[OF h] by blast
  show "\<exists>s' e'. update s e = Inr (Undefined, s', e') \<and> has_heads s'"
  proof (cases "rate_limited s e")
    case True
    then show ?thesis using h by (simp add: update_limited)
  next
    case False
    obtain s2 e2 where m: "moveSnakes s (snd (Date_now e)) = Inr (s2, e2)"
      using moveSnakes_heads[OF h] by blast
    have h2: "has_heads s2" using m by (rule moveSnakes_Inr)
    obtain c where c: "checkCollision s2 = Inr c" using checkCollision_heads[OF h2] by blast
    have "has_heads ((if c then fst (resetGame s2 e2) else s2)\<lparr>lastUpdate := fst (Date_now e)\<rparr>)"
      using h2 initializeGameState_heads[of e2] by (simp add: has_heads_def resetGame_def)
    then show ?thesis unfolding update_advance[OF False m c] by blast
  qed
qed

theorem positions_nonempty_witness:
  "has_heads chase \<and>
   moveSnakes chase exampleEnv = Inr (chaseMoved, exampleEnv\<lparr>drawn := 2\<rparr>) \<and> has_heads chaseMoved \<and>
   checkCollision chase = Inr False \<and>
   update chase exampleEnv = Inr (Undefined, chaseMoved\<lparr>lastUpdate := 1000\<rparr>, exampleEnv\<lparr>drawn := 2, reads := 1\<rparr>) \<and>
   has_heads (chaseMoved\<lparr>lastUpdate := 1000\<rparr>)"
  using positions_nonempty [of exampleEnv chase] chase_moved' [of 0] chase_moved' [of 1]
  by (simp add: update_def has_heads_def chaseMoved_def checkCollision_def checkSelfCollision_def
      checkSnakeCollision_def someAt_def chase_def Date_now_def exampleEnv_def GAME_SPEED_def)

text \<open>
  Claim C4. On a step that is not rate limited, each snake is tested against the food cell
  the state held when the step began. If its new head is not on that cell the head is
  prepended and the last cell removed, so the length and the score are unchanged; if it
  is, the head is prepended, the length grows by exactly 1 and the score by exactly 1.
  Unless the collision check then resets the state, these are the snakes \<^verbatim>\<open>update\<close>
  leaves.
\<close>

theorem length_invariant:
  fixes s :: GameState
  assumes "positions (snake1 s) = h1 # t1" and "positions (snake2 s) = h2 # t2"
    and "\<not> rate_limited s e"
  shows "\<exists>s' e'. moveSnakes s (snd (Date_now e)) = Inr (s', e') \<and>
     (if newHead (snake1 s) h1 = position (food s)
      then positions (snake1 s') = newHead (snake1 s) h1 # h1 # t1 \<and>
           length (positions (snake1 s')) = length (positions (snake1 s)) + 1 \<and>
           score (snake1 s') = score (snake1 s) + 1
      else positions (snake1 s') = butlast (newHead (snake1 s) h1 # h1 # t1) \<and>
           length (positions (snake1 s')) = length (positions (snake1 s)) \<and>
           score (snake1 s') = score (snake1 s)) \<and>
     (if newHead (snake2 s) h2 = position (food s)
      then positions (snake2 s') = newHead (snake2 s) h2 # h2 # t2 \<and>
           length (positions (snake2 s')) = length (positions (snake2 s)) + 1 \<and>
           score (snake2 s') = score (snake2 s) + 1
      else positions (snake2 s') = butlast (newHead (snake2 s) h2 # h2 # t2) \<and>
           length (positions (snake2 s')) = length (positions (snake2 s)) \<and>
           score (snake2 s') = score (snake2 s)) \<and>
     (\<exists>s'' e''. update s e = Inr (Undefined, s'', e'') \<and>
        (checkCollision s' = Inr False \<longrightarrow> snake1 s'' = snake1 s' \<and> snake2 s'' = snake2 s'))"
proof -
  obtain s' e' where m: "moveSnakes s (snd (Date_now e)) = Inr (s', e')"
    using moveSnakes_Cons[OF assms(1,2)] by blast
  obtain c where c: "checkCollision s' = Inr c"
    using checkCollision_heads[OF moveSnakes_Inr[OF m]] by blast
  have u: "\<exists>s'' e''. update s e = Inr (Undefined, s'', e'') \<and>
        (checkCollision s' = Inr False \<longrightarrow> snake1 s'' = snake1 s' \<and> snake2 s'' = snake2 s')"
    unfolding update_advance[OF assms(3) m c] using c by auto
  have "(if newHead (snake1 s) h1 = position (food s)
      then positions (snake1 s') = newHead (snake1 s) h1 # h1 # t1 \<and>
           length (positions (snake1 s')) = length (positions (snake1 s)) + 1 \<and>
           score (snake1 s') = score (snake1 s) + 1
      else positions (snake1 s') = butlast (newHead (snake1 s) h1 # h1 # t1) \<and>
           length (positions (snake1 s')) = length (positions (snake1 s)) \<and>
           score (snake1 s') = score (snake1 s))"
    using m unfolding moveSnakes_Cons[OF assms(1,2)] using assms(1) by auto
  moreover have "(if newHead (snake2 s) h2 = position (food s)
      then positions (snake2 s') = newHead (snake2 s) h2 # h2 # t2 \<and>
           length (positions (snake2 s')) = length (positions (snake2 s)) + 1 \<and>
           score (snake2 s') = score (snake2 s) + 1
      else positions (snake2 s') = butlast (newHead (snake2 s) h2 # h2 # t2) \<and>
           length (positions (snake2 s')) = length (positions (snake2 s)) \<and>
           score (snake2 s') = score (snake2 s))"
    using m unfolding moveSnakes_Cons[OF assms(1,2)] using assms(2) by auto
  ultimately show ?thesis using m u by blast
qed

theorem length_invariant_witness:
  "positions (snake1 chase) = \<lparr>px = 180, py = 300\<rparr> # [] \<and>
   positions (snake2 chase) = \<lparr>px = 600, py = 300\<rparr> # [\<lparr>px = 620, py = 300\<rparr>] \<and>
   \<not> rate_limited chase exampleEnv \<and>
   moveSnakes chase (snd (Date_now exampleEnv)) = Inr (chaseMoved, exampleEnv\<lparr>drawn := 2, reads := 1\<rparr>) \<and>
   newHead (snake1 chase) \<lparr>px = 180, py = 300\<rparr> = position (food chase) \<and>
   length (positions (snake1 chaseMoved)) = length (positions (snake1 chase)) + 1 \<and>
   score (snake1 chaseMoved) = score (snake1 chase) + 1 \<and>
   newHead (snake2 chase) \<lparr>px = 600, py = 300\<rparr> \<noteq> position (food chase) \<and>
   length (positions (snake2 chaseMoved)) = length (positions (snake2 chase)) \<and>
   score (snake2 chaseMoved) = score (snake2 chase) \<and>
   checkCollision chaseMoved = Inr False \<and>
   update chase exampleEnv =
     Inr (Undefined, chaseMoved\<lparr>lastUpdate := 1000\<rparr>, exampleEnv\<lparr>drawn := 2, reads := 1\<rparr>)"
  using length_invariant [of chase "\<lparr>px = 180, py = 300\<rparr>" "[]" "\<lparr>px = 600, py = 300\<rparr>"
      "[\<lparr>px = 620, py = 300\<rparr>]" exampleEnv] chase_moved' [of 1] chase_no_collision
      chase_advances chase_updated
  by (simp add: chase_def chaseMoved_def example_defs)

text \<open>
  Claim C3. When a step that is not rate limited detects a self-collision or a mutual
  collision after the move, \<^verbatim>\<open>update\<close> replaces the whole state by a newly initialised
  one: the first snake is the single cell \<open>(W/4, H/2) = (200, 300)\<close> facing right, the
  second the single cell \<open>(3W/4, H/2) = (600, 300)\<close> facing left, both scores are 0 and
  the food is newly generated (two more draws). Only \<^verbatim>\<open>lastUpdate\<close> is then set to the
  time the step read.
\<close>

theorem collision_resets:
  fixes s s2 :: GameState
  assumes "\<not> rate_limited s e"
    and "moveSnakes s (snd (Date_now e)) = Inr (s2, e2)"
    and "self_collision (snake1 s2) \<or> self_collision (snake2 s2) \<or>
         mutual_collision (snake1 s2) (snake2 s2)"
  shows "\<exists>s' e'. update s e = Inr (Undefined, s', e') \<and>
     s' = (fst (initializeGameState e2))\<lparr>lastUpdate := fst (Date_now e)\<rparr> \<and>
     e' = snd (initializeGameState e2) \<and>
     snake1 s' = \<lparr>positions = [\<lparr>px = CANVAS_WIDTH div 4, py = CANVAS_HEIGHT div 2\<rparr>],
                  direction = RIGHT, color = GREEN, score = 0, speed = GAME_SPEED\<rparr> \<and>
     snake2 s' = \<lparr>positions = [\<lparr>px = (CANVAS_WIDTH * 3) div 4, py = CANVAS_HEIGHT div 2\<rparr>],
                  direction = LEFT, color = BLUE, score = 0, speed = GAME_SPEED\<rparr> \<and>
     positions (snake1 s') = [\<lparr>px = 200, py = 300\<rparr>] \<and>
     positions (snake2 s') = [\<lparr>px = 600, py = 300\<rparr>] \<and>
     food s' = fst (generateFood e2) \<and>
     drawn e' = drawn e2 + 2"
proof -
  have c: "checkCollision s2 = Inr True"
    using checkCollision_heads[OF moveSnakes_Inr[OF assms(2)]] assms(3) by simp
  show ?thesis
    unfolding update_advance[OF assms(1,2) c]
    by (simp add: resetGame_def initializeGameState_def generateFood_def Math_random_def
        Date_now_def Let_def CANVAS_WIDTH_def CANVAS_HEIGHT_def)
qed

theorem collision_resets_witness:
  "\<not> rate_limited faceOff exampleEnv \<and>
   moveSnakes faceOff (snd (Date_now exampleEnv)) = Inr (faceOffMoved, exampleEnv\<lparr>drawn := 4, reads := 1\<rparr>) \<and>
   mutual_collision (snake1 faceOffMoved) (snake2 faceOffMoved) \<and>
   score (snake1 faceOffMoved) = 1 \<and> score (snake2 faceOffMoved) = 2 \<and>
   update faceOff exampleEnv = Inr (Undefined, respawned, exampleEnv\<lparr>drawn := 6, reads := 2\<rparr>) \<and>
   score (snake1 respawned) = 0 \<and> score (snake2 respawned) = 0"
proof -
  have m: "moveSnakes faceOff (snd (Date_now exampleEnv)) = Inr (faceOffMoved, exampleEnv\<lparr>drawn := 4, reads := 1\<rparr>)"
    using faceOff_moved[of 1] by (simp add: example_defs)
  have mc: "mutual_collision (snake1 faceOffMoved) (snake2 faceOffMoved)"
    by (simp add: mutual_collision_def faceOffMoved_def)
  from collision_resets[OF faceOff_advances m] mc
  have "update faceOff exampleEnv =
     Inr (Undefined, (fst (initializeGameState (exampleEnv\<lparr>drawn := 4, reads := 1\<rparr>)))
                        \<lparr>lastUpdate := fst (Date_now exampleEnv)\<rparr>,
          snd (initializeGameState (exampleEnv\<lparr>drawn := 4, reads := 1\<rparr>)))"
    by (auto simp: update_advance)
  moreover have "(fst (initializeGameState (exampleEnv\<lparr>drawn := 4, reads := 1\<rparr>)))
                        \<lparr>lastUpdate := fst (Date_now exampleEnv)\<rparr> = respawned"
    by (simp add: initializeGameState_def respawned_def example_defs)
  moreover have "snd (initializeGameState (exampleEnv\<lparr>drawn := 4, reads := 1\<rparr>)) = exampleEnv\<lparr>drawn := 6, reads := 2\<rparr>"
    by (simp add: initializeGameState_def example_defs)
  ultimately show ?thesis using faceOff_advances m mc
    by (simp add: faceOffMoved_def respawned_def)
qed

lemma update_sets_lastUpdate:
  assumes "\<not> rate_limited s e" "update s e = Inr (r, s', e')"
  shows "lastUpdate s' = fst (Date_now e)"
  using assms
  by (auto simp: update_def rate_limited_def case_prod_beta Let_def split: sum.splits if_splits)

text \<open>
  Claim C7, as amended. \<^verbatim>\<open>update\<close> returns no value (\<^verbatim>\<open>undefined\<close>) whether or not it
  advanced. When the time it reads is less than \<open>1000 / GAME_SPEED\<close> milliseconds after
  \<^verbatim>\<open>lastUpdate\<close> it leaves the state as it is. Otherwise it moves both snakes, checks
  for a collision, resets the state when there is one, and sets \<^verbatim>\<open>lastUpdate\<close> to the
  time read. Hence a second call that reads a time less than \<open>1000 / GAME_SPEED\<close>
  milliseconds after the time an advancing call read changes nothing.
\<close>

theorem tick_rate_limiting:
  fixes s s' :: GameState
  shows "(rate_limited s e \<longrightarrow> update s e = Inr (Undefined, s, snd (Date_now e))) \<and>
         (\<not> rate_limited s e \<and> has_heads s \<longrightarrow>
            (\<exists>s2 e2 c. moveSnakes s (snd (Date_now e)) = Inr (s2, e2) \<and>
               checkCollision s2 = Inr c \<and>
               update s e =
                 Inr (Undefined,
                      (if c then fst (resetGame s2 e2) else s2)\<lparr>lastUpdate := fst (Date_now e)\<rparr>,
                      (if c then snd (resetGame s2 e2) else e2)))) \<and>
         (\<not> rate_limited s e \<and> update s e = Inr (r, s', e') \<and>
          real_of_int (fst (Date_now e') - fst (Date_now e)) < 1000 / real_of_int GAME_SPEED \<longrightarrow>
            lastUpdate s' = fst (Date_now e) \<and>
            update s' e' = Inr (Undefined, s', snd (Date_now e')))"
proof (intro conjI impI)
  assume "rate_limited s e"
  then show "update s e = Inr (Undefined, s, snd (Date_now e))" by (rule update_limited)
next
  assume a: "\<not> rate_limited s e \<and> has_heads s"
  then obtain s2 e2 where m: "moveSnakes s (snd (Date_now e)) = Inr (s2, e2)"
    using moveSnakes_heads by blast
  obtain c where c: "checkCollision s2 = Inr c"
    using checkCollision_heads[OF moveSnakes_Inr[OF m]] by blast
  from a m c show "\<exists>s2 e2 c. moveSnakes s (snd (Date_now e)) = Inr (s2, e2) \<and>
               checkCollision s2 = Inr c \<and>
               update s e =
                 Inr (Undefined,
                      (if c then fst (resetGame s2 e2) else s2)\<lparr>lastUpdate := fst (Date_now e)\<rparr>,
                      (if c then snd (resetGame s2 e2) else e2))"
    using update_advance by blast
next
  assume a: "\<not> rate_limited s e \<and> update s e = Inr (r, s', e') \<and>
          real_of_int (fst (Date_now e') - fst (Date_now e)) < 1000 / real_of_int GAME_SPEED"
  then show l: "lastUpdate s' = fst (Date_now e)" using update_sets_lastUpdate by blast
  with a have "rate_limited s' e'" by (simp add: rate_limited_def)
  then show "update s' e' = Inr (Undefined, s', snd (Date_now e'))" by (rule update_limited)
qed

theorem tick_rate_limiting_witness:
  "\<not> rate_limited chase exampleEnv \<and>
   update chase exampleEnv =
     Inr (Undefined, chaseMoved\<lparr>lastUpdate := 1000\<rparr>, exampleEnv\<lparr>drawn := 2, reads := 1\<rparr>) \<and>
   fst (Date_now exampleEnv) = 1000 \<and>
   fst (Date_now (exampleEnv\<lparr>drawn := 2, reads := 1\<rparr>)) = 1020 \<and>
   rate_limited (chaseMoved\<lparr>lastUpdate := 1000\<rparr>) (exampleEnv\<lparr>drawn := 2, reads := 1\<rparr>) \<and>
   update (chaseMoved\<lparr>lastUpdate := 1000\<rparr>) (exampleEnv\<lparr>drawn := 2, reads := 1\<rparr>) =
     Inr (Undefined, chaseMoved\<lparr>lastUpdate := 1000\<rparr>, exampleEnv\<lparr>drawn := 2, reads := 2\<rparr>)"
proof -
  let ?s = "chaseMoved\<lparr>lastUpdate := 1000\<rparr>"
  let ?e = "exampleEnv\<lparr>drawn := 2, reads := 1\<rparr>"
  have t0: "fst (Date_now exampleEnv) = 1000" and t1: "fst (Date_now ?e) = 1020"
    and e2: "snd (Date_now ?e) = exampleEnv\<lparr>drawn := 2, reads := 2\<rparr>"
    by (simp_all add: Date_now_def exampleEnv_def)
  have near: "real_of_int (fst (Date_now ?e) - fst (Date_now exampleEnv)) < 1000 / real_of_int GAME_SPEED"
    unfolding t0 t1 by (simp add: GAME_SPEED_def)
  have lim: "rate_limited ?s ?e"
    unfolding rate_limited_def t1 by (simp add: GAME_SPEED_def)
  from tick_rate_limiting [of chase exampleEnv Undefined ?s ?e] chase_advances chase_updated near
  have "update ?s ?e = Inr (Undefined, ?s, snd (Date_now ?e))" by blast
  then show ?thesis
    unfolding e2 using chase_advances chase_updated t0 t1 lim by blast
qed

text \<open>
  The claim as written has \<^verbatim>\<open>update\<close> return true when it advances. It advances on the
  example and returns \<^verbatim>\<open>undefined\<close>.
\<close>

theorem update_returns_no_boolean_counterexample:
  "\<not> rate_limited chase exampleEnv \<and>
   update chase exampleEnv =
     Inr (Undefined, chaseMoved\<lparr>lastUpdate := 1000\<rparr>, exampleEnv\<lparr>drawn := 2, reads := 1\<rparr>) \<and>
   update chase exampleEnv \<noteq>
     Inr (Boolean True, chaseMoved\<lparr>lastUpdate := 1000\<rparr>, exampleEnv\<lparr>drawn := 2, reads := 1\<rparr>)"
  using chase_advances chase_updated by simp

text \<open>
  Claim C1, as amended. In one step both eating tests read the food cell the state held
  when the step began (line 97 reads the food once, before the loop), not a food that was
  respawned earlier in the same step. The second snake eats exactly when its new head is
  on that cell: when the first snake has eaten and the second snake's new head is not on
  the cell the step began with, the second snake does not eat, also when its new head is
  on the cell the food was just respawned at, and the food is respawned once. When the
  new heads of both snakes land on the cell the step began with, both snakes eat: each
  score grows by 1, each body keeps its tail, and the food is respawned twice (four
  draws), the second respawn replacing the first. The two heads are then on one cell, the
  collision check returns true, and the step ends with the reset of the whole state.
\<close>

theorem eating_reads_tick_start_food:
  fixes s :: GameState
  assumes "positions (snake1 s) = h1 # t1" and "positions (snake2 s) = h2 # t2"
    and "\<not> rate_limited s e"
  shows "\<exists>s' e'. moveSnakes s (snd (Date_now e)) = Inr (s', e') \<and>
     (score (snake1 s') = score (snake1 s) + 1 \<longleftrightarrow> newHead (snake1 s) h1 = position (food s)) \<and>
     (score (snake2 s') = score (snake2 s) + 1 \<longleftrightarrow> newHead (snake2 s) h2 = position (food s)) \<and>
     (newHead (snake1 s) h1 = position (food s) \<and> newHead (snake2 s) h2 \<noteq> position (food s) \<longrightarrow>
        positions (snake2 s') = butlast (newHead (snake2 s) h2 # h2 # t2) \<and>
        score (snake2 s') = score (snake2 s) \<and>
        food s' = fst (generateFood (snd (Date_now e))) \<and>
        e' = snd (generateFood (snd (Date_now e))) \<and>
        drawn e' = drawn e + 2) \<and>
     (newHead (snake1 s) h1 = position (food s) \<and> newHead (snake2 s) h2 \<noteq> position (food s) \<and>
      newHead (snake2 s) h2 = position (fst (generateFood (snd (Date_now e)))) \<longrightarrow>
        hd (positions (snake2 s')) = position (food s') \<and>
        score (snake2 s') = score (snake2 s)) \<and>
     (newHead (snake1 s) h1 = position (food s) \<and> newHead (snake2 s) h2 = position (food s) \<longrightarrow>
        positions (snake1 s') = position (food s) # h1 # t1 \<and>
        score (snake1 s') = score (snake1 s) + 1 \<and>
        positions (snake2 s') = position (food s) # h2 # t2 \<and>
        score (snake2 s') = score (snake2 s) + 1 \<and>
        food s' = fst (generateFood (snd (generateFood (snd (Date_now e))))) \<and>
        e' = snd (generateFood (snd (generateFood (snd (Date_now e))))) \<and>
        drawn e' = drawn e + 4 \<and>
        checkCollision s' = Inr True \<and>
        update s e = Inr (Undefined, (fst (initializeGameState e'))\<lparr>lastUpdate := fst (Date_now e)\<rparr>,
                          snd (initializeGameState e')))"
proof -
  let ?e1 = "snd (Date_now e)"
  obtain s' e' where m: "moveSnakes s ?e1 = Inr (s', e')"
    using moveSnakes_Cons[OF assms(1,2)] by blast
  have d2: "drawn (snd (generateFood ?e1)) = drawn e + 2"
    and d4: "drawn (snd (generateFood (snd (generateFood ?e1)))) = drawn e + 4"
    by (simp_all add: generateFood_def Math_random_def Date_now_def Let_def)
  have s': "s' = s\<lparr>snake1 := (if newHead (snake1 s) h1 = position (food s)
                        then (snake1 s)\<lparr>positions := newHead (snake1 s) h1 # h1 # t1,
                                        score := score (snake1 s) + 1\<rparr>
                        else (snake1 s)\<lparr>positions := newHead (snake1 s) h1 # butlast (h1 # t1)\<rparr>),
             snake2 := (if newHead (snake2 s) h2 = position (food s)
                        then (snake2 s)\<lparr>positions := newHead (snake2 s) h2 # h2 # t2,
                                        score := score (snake2 s) + 1\<rparr>
                        else (snake2 s)\<lparr>positions := newHead (snake2 s) h2 # butlast (h2 # t2)\<rparr>),
             food := (if newHead (snake2 s) h2 = position (food s)
                      then fst (generateFood (if newHead (snake1 s) h1 = position (food s)
                                              then snd (generateFood ?e1) else ?e1))
                      else if newHead (snake1 s) h1 = position (food s)
                           then fst (generateFood ?e1) else food s)\<rparr>"
    and e': "e' = (if newHead (snake2 s) h2 = position (food s)
           then snd (generateFood (if newHead (snake1 s) h1 = position (food s)
                                   then snd (generateFood ?e1) else ?e1))
           else if newHead (snake1 s) h1 = position (food s)
                then snd (generateFood ?e1) else ?e1)"
    using m unfolding moveSnakes_Cons[OF assms(1,2)] by simp_all
  have a1: "score (snake1 s') = score (snake1 s) + 1 \<longleftrightarrow> newHead (snake1 s) h1 = position (food s)"
    unfolding s' by simp
  have a2: "score (snake2 s') = score (snake2 s) + 1 \<longleftrightarrow> newHead (snake2 s) h2 = position (food s)"
    unfolding s' by simp
  have b: "positions (snake2 s') = butlast (newHead (snake2 s) h2 # h2 # t2) \<and>
        score (snake2 s') = score (snake2 s) \<and>
        food s' = fst (generateFood ?e1) \<and> e' = snd (generateFood ?e1) \<and> drawn e' = drawn e + 2"
    if "newHead (snake1 s) h1 = position (food s)" "newHead (snake2 s) h2 \<noteq> position (food s)"
    unfolding s' e' using that d2 by simp
  have c: "hd (positions (snake2 s')) = position (food s') \<and> score (snake2 s') = score (snake2 s)"
    if "newHead (snake1 s) h1 = position (food s)" "newHead (snake2 s) h2 \<noteq> position (food s)"
       "newHead (snake2 s) h2 = position (fst (generateFood ?e1))"
    unfolding s' using that by simp
  have d: "positions (snake1 s') = position (food s) # h1 # t1 \<and>
        score (snake1 s') = score (snake1 s) + 1 \<and>
        positions (snake2 s') = position (food s) # h2 # t2 \<and>
        score (snake2 s') = score (snake2 s) + 1 \<and>
        food s' = fst (generateFood (snd (generateFood ?e1))) \<and>
        e' = snd (generateFood (snd (generateFood ?e1))) \<and>
        drawn e' = drawn e + 4 \<and>
        checkCollision s' = Inr True \<and>
        update s e = Inr (Undefined, (fst (initializeGameState e'))\<lparr>lastUpdate := fst (Date_now e)\<rparr>,
                          snd (initializeGameState e'))"
    if l: "newHead (snake1 s) h1 = position (food s)" "newHead (snake2 s) h2 = position (food s)"
  proof -
    have p: "positions (snake1 s') = position (food s) # h1 # t1"
      "positions (snake2 s') = position (food s) # h2 # t2"
      unfolding s' using l by simp_all
    have h: "has_heads s'" using m by (rule moveSnakes_Inr)
    have ck: "checkCollision s' = Inr True"
      unfolding checkCollision_heads[OF h] by (simp add: mutual_collision_def p)
    have u: "update s e = Inr (Undefined, (fst (initializeGameState e'))\<lparr>lastUpdate := fst (Date_now e)\<rparr>,
                          snd (initializeGameState e'))"
      unfolding update_advance[OF assms(3) m ck] by (simp add: resetGame_def)
    have "score (snake1 s') = score (snake1 s) + 1" "score (snake2 s') = score (snake2 s) + 1"
      using a1 a2 l by simp_all
    moreover have "food s' = fst (generateFood (snd (generateFood ?e1)))"
      "e' = snd (generateFood (snd (generateFood ?e1)))"
      unfolding s' e' using l by simp_all
    ultimately show ?thesis using p ck u d4 by simp
  qed
  show ?thesis
    apply (rule exI[of _ s'], rule exI[of _ e'])
    using m a1 a2 b c d by blast
qed

theorem eating_reads_tick_start_food_witness:
  "positions (snake1 relay) = \<lparr>px = 180, py = 300\<rparr> # [] \<and>
   positions (snake2 relay) = \<lparr>px = 420, py = 200\<rparr> # [\<lparr>px = 440, py = 200\<rparr>] \<and>
   \<not> rate_limited relay exampleEnv \<and>
   newHead (snake1 relay) \<lparr>px = 180, py = 300\<rparr> = position (food relay) \<and>
   newHead (snake2 relay) \<lparr>px = 420, py = 200\<rparr> \<noteq> position (food relay) \<and>
   newHead (snake2 relay) \<lparr>px = 420, py = 200\<rparr> =
     position (fst (generateFood (snd (Date_now exampleEnv)))) \<and>
   moveSnakes relay (snd (Date_now exampleEnv)) =
     Inr (relayMoved, exampleEnv\<lparr>drawn := 2, reads := 1\<rparr>) \<and>
   hd (positions (snake2 relayMoved)) = position (food relayMoved) \<and>
   score (snake2 relayMoved) = score (snake2 relay) \<and>
   positions (snake1 faceOff) = \<lparr>px = 180, py = 300\<rparr> # [] \<and>
   positions (snake2 faceOff) = \<lparr>px = 220, py = 300\<rparr> # [\<lparr>px = 240, py = 300\<rparr>] \<and>
   newHead (snake1 faceOff) \<lparr>px = 180, py = 300\<rparr> = position (food faceOff) \<and>
   newHead (snake2 faceOff) \<lparr>px = 220, py = 300\<rparr> = position (food faceOff) \<and>
   \<not> rate_limited faceOff exampleEnv \<and>
   moveSnakes faceOff (snd (Date_now exampleEnv)) =
     Inr (faceOffMoved, exampleEnv\<lparr>drawn := 4, reads := 1\<rparr>) \<and>
   checkCollision faceOffMoved = Inr True \<and>
   update faceOff exampleEnv = Inr (Undefined, respawned, exampleEnv\<lparr>drawn := 6, reads := 2\<rparr>)"
proof -
  have rm: "moveSnakes relay (snd (Date_now exampleEnv)) = Inr (relayMoved, exampleEnv\<lparr>drawn := 2, reads := 1\<rparr>)"
    using relay_moved[of 1] by (simp add: example_defs)
  have r1: "positions (snake1 relay) = \<lparr>px = 180, py = 300\<rparr> # []"
    and r2: "positions (snake2 relay) = \<lparr>px = 420, py = 200\<rparr> # [\<lparr>px = 440, py = 200\<rparr>]"
    and r3: "newHead (snake1 relay) \<lparr>px = 180, py = 300\<rparr> = position (food relay)"
    and r4: "newHead (snake2 relay) \<lparr>px = 420, py = 200\<rparr> \<noteq> position (food relay)"
    and r5: "newHead (snake2 relay) \<lparr>px = 420, py = 200\<rparr> =
               position (fst (generateFood (snd (Date_now exampleEnv))))"
    by (simp_all add: relay_def example_defs)
  from eating_reads_tick_start_food[OF r1 r2 relay_advances] rm r3 r4 r5
  have rw: "hd (positions (snake2 relayMoved)) = position (food relayMoved) \<and>
            score (snake2 relayMoved) = score (snake2 relay)"
    by auto
  have m: "moveSnakes faceOff (snd (Date_now exampleEnv)) = Inr (faceOffMoved, exampleEnv\<lparr>drawn := 4, reads := 1\<rparr>)"
    using faceOff_moved[of 1] by (simp add: example_defs)
  have 1: "positions (snake1 faceOff) = \<lparr>px = 180, py = 300\<rparr> # []"
    and 2: "positions (snake2 faceOff) = \<lparr>px = 220, py = 300\<rparr> # [\<lparr>px = 240, py = 300\<rparr>]"
    and 3: "newHead (snake1 faceOff) \<lparr>px = 180, py = 300\<rparr> = position (food faceOff)"
    and 4: "newHead (snake2 faceOff) \<lparr>px = 220, py = 300\<rparr> = position (food faceOff)"
    by (simp_all add: faceOff_def example_defs)
  have i: "(fst (initializeGameState (exampleEnv\<lparr>drawn := 4, reads := 1\<rparr>)))
                        \<lparr>lastUpdate := fst (Date_now exampleEnv)\<rparr> = respawned"
    by (simp add: initializeGameState_def respawned_def example_defs)
  have j: "snd (initializeGameState (exampleEnv\<lparr>drawn := 4, reads := 1\<rparr>)) = exampleEnv\<lparr>drawn := 6, reads := 2\<rparr>"
    by (simp add: initializeGameState_def example_defs)
  from eating_reads_tick_start_food[OF 1 2 faceOff_advances] m 3 4 i j
  have fw: "checkCollision faceOffMoved = Inr True \<and>
        update faceOff exampleEnv = Inr (Undefined, respawned, exampleEnv\<lparr>drawn := 6, reads := 2\<rparr>)"
    by auto
  show ?thesis
    using r1 r2 r3 r4 r5 relay_advances rm rw 1 2 3 4 faceOff_advances m fw by blast
qed

text \<open>
  The claim as written has the second snake tested against the food the first snake's
  meal respawned, so that only one score grows and the food is respawned once. On the
  example the respawned food is at \<open>(400, 200)\<close>, away from the second snake's new head
  \<open>(200, 300)\<close>, and still both scores grow and the move consumes four draws, two
  respawns.
\<close>

theorem exclusive_eating_counterexample:
  "newHead (snake1 faceOff) (hd (positions (snake1 faceOff))) = position (food faceOff) \<and>
   newHead (snake2 faceOff) (hd (positions (snake2 faceOff))) = position (food faceOff) \<and>
   moveSnakes faceOff exampleEnv = Inr (faceOffMoved, exampleEnv\<lparr>drawn := 4\<rparr>) \<and>
   position (fst (generateFood exampleEnv)) \<noteq> newHead (snake2 faceOff) (hd (positions (snake2 faceOff))) \<and>
   score (snake1 faceOffMoved) = score (snake1 faceOff) + 1 \<and>
   score (snake2 faceOffMoved) = score (snake2 faceOff) + 1 \<and>
   drawn (exampleEnv\<lparr>drawn := 4\<rparr>) = drawn exampleEnv + 2 + 2"
  using faceOff_moved[of 0]
  by (simp add: faceOff_def faceOffMoved_def example_defs)

subsection \<open>The registry and the handlers\<close>

lemma indexOf_range: "- 1 \<le> indexOf xs v \<and> (indexOf xs v = - 1 \<longleftrightarrow> v \<notin> set xs)"
  by (induction xs) (auto simp: Let_def)

lemma indexOf_absent: "indexOf xs v = - 1 \<longleftrightarrow> v \<notin> set xs"
  by (simp add: indexOf_range)




lemma findRoom_member:
  assumes "findRoom socket rooms = Some (roomId, room)"
  shows "(roomId, room) \<in> set rooms" and "socket \<in> set (players room)"
proof -
  from assms obtain i where i: "i < length rooms" "rooms ! i = (roomId, room)"
    and p: "indexOf (players room) socket \<noteq> - 1"
    unfolding findRoom_def find_Some_iff by auto
  from i show "(roomId, room) \<in> set rooms" by (metis nth_mem)
  from p show "socket \<in> set (players room)" by (simp add: indexOf_absent)
qed

lemma findRoom_lookup:
  assumes "findRoom socket rooms = Some (roomId, room)" "distinct (map fst rooms)"
  shows "map_of rooms roomId = Some room"
  using findRoom_member(1)[OF assms(1)] assms(2) by simp

lemma find_bob: "findRoom ''bob'' exampleRooms = Some (''room-a'', roomA)"
  by (simp add: findRoom_def exampleRooms_def roomA_def)



lemmas direction_defs =
  rejected_def same_axis_def perpendicular_def vertical_def horizontal_def opposite_def
  UP_def DOWN_def LEFT_def RIGHT_def

lemma rejected_iff:
  assumes "is_direction d" "is_direction c"
  shows "rejected d c \<longleftrightarrow> same_axis d c \<or> d = opposite c"
  using assms unfolding is_direction_def
  by (elim disjE; simp add: direction_defs)

lemma rejected_same:
  assumes "is_direction c"
  shows "rejected c c" and "rejected (opposite c) c"
  using assms unfolding is_direction_def
  by (elim disjE; simp add: direction_defs)+

lemma accepted_perpendicular:
  assumes "is_direction d" "is_direction c" "perpendicular d c"
  shows "\<not> rejected d c"
  using assms unfolding is_direction_def
  by (elim disjE; simp add: direction_defs)

text \<open>
  Claim C8. A join for a room id that is not in the registry emits the error of line 196
  (the room does not exist) to the requesting socket, and a join for a room that already
  has two players emits the error of line 201 (the room is full) to it. In both cases the
  registry, with every room's player list, game state and timer, is returned as it was,
  and nothing else is asked of socket.io.
\<close>

theorem join_failures:
  fixes rooms :: Rooms
  shows "(map_of rooms roomId = None \<longrightarrow>
            on_joinRoom socket roomId rooms = (rooms, [EmitError socket msgRoomMissing])) \<and>
         (map_of rooms roomId = Some room \<and> length (players room) \<ge> 2 \<longrightarrow>
            on_joinRoom socket roomId rooms = (rooms, [EmitError socket msgRoomFull]))"
  by (simp add: on_joinRoom_def)

theorem join_failures_witness:
  "map_of exampleRooms ''room-z'' = None \<and>
   on_joinRoom ''dave'' ''room-z'' exampleRooms = (exampleRooms, [EmitError ''dave'' msgRoomMissing]) \<and>
   map_of exampleRooms ''room-a'' = Some roomA \<and>
   length (players roomA) \<ge> 2 \<and>
   on_joinRoom ''dave'' ''room-a'' exampleRooms = (exampleRooms, [EmitError ''dave'' msgRoomFull])"
  using join_failures [where rooms = exampleRooms and roomId = "''room-z''" and socket = "''dave''"]
    join_failures [where rooms = exampleRooms and roomId = "''room-a''" and socket = "''dave''"
      and room = roomA]
  by (simp add: exampleRooms_def roomA_def)




text \<open>
  Claim C6. For a socket that is a player of a room, a requested direction \<open>d\<close> and the
  current direction \<open>cur\<close> of the snake it steers, both among the four directions: the
  handler leaves the registry as it is exactly when \<open>d\<close> and \<open>cur\<close> lie on the same axis
  (both vertical or both horizontal) or \<open>d\<close> is the negation of \<open>cur\<close>, and otherwise
  it stores \<open>d\<close> as the direction of that snake at once. In particular the negation of
  \<open>cur\<close> and \<open>cur\<close> itself change nothing, and a perpendicular request is always stored.
  No error is emitted in either case: the handler has no effect but the registry.
\<close>

theorem direction_validation:
  fixes rooms :: Rooms
  assumes "findRoom socket rooms = Some (roomId, room)"
    and "cur = direction (playerSnake (indexOf (players room) socket) (gameState room))"
    and "is_direction d" and "is_direction cur"
  shows "(rejected d cur \<longleftrightarrow> same_axis d cur \<or> d = opposite cur) \<and>
         on_direction socket d rooms =
           (if same_axis d cur \<or> d = opposite cur then rooms
            else AList.update roomId
                   (room\<lparr>gameState := setDirection (indexOf (players room) socket) d (gameState room)\<rparr>)
                   rooms) \<and>
         direction (playerSnake (indexOf (players room) socket)
                      (setDirection (indexOf (players room) socket) d (gameState room))) = d \<and>
         (d = opposite cur \<longrightarrow> on_direction socket d rooms = rooms) \<and>
         (d = cur \<longrightarrow> on_direction socket d rooms = rooms) \<and>
         (perpendicular d cur \<longrightarrow>
            map_of (on_direction socket d rooms) roomId =
              Some (room\<lparr>gameState := setDirection (indexOf (players room) socket) d (gameState room)\<rparr>))"
proof -
  have od: "on_direction socket d rooms =
           (if rejected d cur then rooms
            else AList.update roomId
                   (room\<lparr>gameState := setDirection (indexOf (players room) socket) d (gameState room)\<rparr>)
                   rooms)"
    unfolding on_direction_def assms(1) by (simp add: assms(2) Let_def)
  have 1: "rejected d cur \<longleftrightarrow> same_axis d cur \<or> d = opposite cur"
    by (rule rejected_iff[OF assms(3,4)])
  have 2: "direction (playerSnake (indexOf (players room) socket)
                      (setDirection (indexOf (players room) socket) d (gameState room))) = d"
    by (simp add: playerSnake_def setDirection_def)
  have 3: "d = cur \<longrightarrow> rejected d cur" "perpendicular d cur \<longrightarrow> \<not> rejected d cur"
    using rejected_same(1)[OF assms(4)] accepted_perpendicular[OF assms(3,4)] by blast+
  show ?thesis
    unfolding od using 1 2 3 by (auto simp: update_conv')
qed

theorem direction_validation_witness:
  "findRoom ''bob'' exampleRooms = Some (''room-a'', roomA) \<and>
   indexOf (players roomA) ''bob'' = 1 \<and>
   direction (playerSnake 1 (gameState roomA)) = LEFT \<and>
   is_direction UP \<and> is_direction LEFT \<and> perpendicular UP LEFT \<and>
   on_direction ''bob'' UP exampleRooms =
     [(''room-a'', roomA\<lparr>gameState := chase\<lparr>snake2 := (snake2 chase)\<lparr>direction := UP\<rparr>\<rparr>\<rparr>),
      (''room-b'', roomB)] \<and>
   RIGHT = opposite LEFT \<and>
   on_direction ''bob'' RIGHT exampleRooms = exampleRooms \<and>
   on_direction ''bob'' LEFT exampleRooms = exampleRooms"
proof -
  have i: "indexOf (players roomA) ''bob'' = 1" by (simp add: roomA_def)
  have c: "LEFT = direction (playerSnake (indexOf (players roomA) ''bob'') (gameState roomA))"
    unfolding i by (simp add: roomA_def playerSnake_def chase_def)
  have d: "is_direction UP" "is_direction LEFT" "is_direction RIGHT"
    by (simp_all add: is_direction_def)
  have p: "perpendicular UP LEFT" by (simp add: perpendicular_def vertical_def horizontal_def)
  have n: "\<not> same_axis UP LEFT" "UP \<noteq> opposite LEFT" "RIGHT = opposite LEFT"
    by (simp_all add: direction_defs)
  have s: "setDirection 1 UP (gameState roomA) = chase\<lparr>snake2 := (snake2 chase)\<lparr>direction := UP\<rparr>\<rparr>"
    by (simp add: setDirection_def roomA_def)
  have u: "AList.update ''room-a'' (roomA\<lparr>gameState := chase\<lparr>snake2 := (snake2 chase)\<lparr>direction := UP\<rparr>\<rparr>\<rparr>)
             exampleRooms =
      [(''room-a'', roomA\<lparr>gameState := chase\<lparr>snake2 := (snake2 chase)\<lparr>direction := UP\<rparr>\<rparr>\<rparr>),
       (''room-b'', roomB)]"
    by (simp add: exampleRooms_def)
  from direction_validation [OF find_bob c d(1) d(2)] n(1,2)
  have 1: "on_direction ''bob'' UP exampleRooms =
     [(''room-a'', roomA\<lparr>gameState := chase\<lparr>snake2 := (snake2 chase)\<lparr>direction := UP\<rparr>\<rparr>\<rparr>),
      (''room-b'', roomB)]"
    unfolding i s u by simp
  from direction_validation [OF find_bob c d(3) d(2)] n(3)
  have 2: "on_direction ''bob'' RIGHT exampleRooms = exampleRooms" by blast
  from direction_validation [OF find_bob c d(2) d(2)]
  have 3: "on_direction ''bob'' LEFT exampleRooms = exampleRooms" by blast
  show ?thesis
    using find_bob i c d p n 1 2 3 by simp
qed

end
